theory Spec2Isabelle
  imports Main
begin

section \<open>The BigCommerce API connection (connection.js)\<close>

text \<open>
  A shallow embedding of \<^verbatim>\<open>connection.js\<close>: the constructor \<^verbatim>\<open>Connection\<close>, the
  request builder \<^verbatim>\<open>getRequestOptions\<close> and the four operations \<^verbatim>\<open>get\<close>,
  \<^verbatim>\<open>put\<close>, \<^verbatim>\<open>post\<close> and \<^verbatim>\<open>delete\<close>. JavaScript strings are HOL strings,
  \<^verbatim>\<open>undefined\<close> is \<open>None\<close>, a thrown error is the left summand of a sum, and the
  promise returned by an operation is described by the state in which it ends.
\<close>

subsection \<open>Configuration and construction\<close>

text \<open>
  The configuration object is duck-typed: the constructor reads \<^verbatim>\<open>hash\<close>,
  \<^verbatim>\<open>token\<close>, \<^verbatim>\<open>cid\<close> and \<^verbatim>\<open>api\<close>. A field that is \<^verbatim>\<open>undefined\<close> (absent) is
  \<open>None\<close>. The field \<open>maxConcurrentRequests\<close> is the option that the specification
  names; no line of the source reads it.
\<close>

record config_obj =
  hash :: "string option"
  token :: "string option"
  cid :: "string option"
  api :: "string option"
  maxConcurrentRequests :: "nat option"

text \<open>The two fields of an instance: \<^verbatim>\<open>this.host\<close> and \<^verbatim>\<open>this.config\<close>.\<close>

record connection =
  host :: string
  config :: config_obj

datatype js_error = Error string

text \<open>
  What \<^verbatim>\<open>this\<close> is bound to when the function \<^verbatim>\<open>Connection\<close> starts: the fresh
  object that \<^verbatim>\<open>new\<close> has created, or the global object of a plain call.
\<close>

datatype receiver = FreshInstance | GlobalObject

fun instanceof_Connection :: "receiver \<Rightarrow> bool" where
  "instanceof_Connection FreshInstance = True"
| "instanceof_Connection GlobalObject = False"

text \<open>Lines 44 to 60: the checks in the order of the source, then the two assignments.\<close>

definition initialise :: "config_obj option \<Rightarrow> js_error + connection" where
  "initialise cfg =
     (case cfg of
        None \<Rightarrow> Inl (Error ''Error: Connection needs to be initialized with a config parameter'')
      | Some c \<Rightarrow>
          (case hash c of
             None \<Rightarrow> Inl (Error ''Error: Connection needs store hash - config.hash.'')
           | Some h \<Rightarrow>
               (case token c of
                  None \<Rightarrow> Inl (Error ''Error: Connection needs store oAuth token - config.token.'')
                | Some t \<Rightarrow>
                    (case cid c of
                       None \<Rightarrow> Inl (Error ''Error: Connection needs app client id - config.cid.'')
                     | Some i \<Rightarrow>
                         (case api c of
                            None \<Rightarrow> Inl (Error ''Error: Connection needs BigComerce API URL - config.api.'')
                          | Some a \<Rightarrow>
                              Inr \<lparr>host = a @ ''/stores/'' @ h @ ''/v2'', config = c\<rparr>)))))"

text \<open>
  The function \<^verbatim>\<open>Connection\<close> itself (lines 37 to 61). Called on anything that is not
  an instance, it returns \<^verbatim>\<open>new Connection(config)\<close>, which runs the same function
  on a fresh instance.
\<close>

function Connection :: "receiver \<Rightarrow> config_obj option \<Rightarrow> js_error + connection" where
  "Connection this cfg =
     (if \<not> instanceof_Connection this then Connection FreshInstance cfg
      else initialise cfg)"
  by pat_completeness auto
termination
  by (relation "measure (\<lambda>(this, cfg). if instanceof_Connection this then 0 else 1)") auto

declare Connection.simps [simp del]

subsection \<open>Building a request\<close>

text \<open>
  The options object handed to the transport. A header value is a configuration field,
  so it has the type of one; \<^verbatim>\<open>body\<close> is \<open>None\<close> where the source passes \<^verbatim>\<open>null\<close>;
  \<open>http_method\<close> is the property \<^verbatim>\<open>method\<close>.
\<close>

record request_options =
  url :: string
  http_method :: string
  headers :: "(string \<times> string option) list"
  body :: "string option"

text \<open>
  The built-in functions and the ambient names the source uses without defining them.
  \<open>JSON_parse\<close> gives \<open>None\<close> where \<^verbatim>\<open>JSON.parse\<close> throws a SyntaxError; \<open>truthy\<close> is
  the conversion to a boolean that the conditional operator applies to \<^verbatim>\<open>data\<close>;
  \<open>parseInt\<close> gives \<open>None\<close> for NaN; \<open>retry\<close> is the value of the free identifier
  \<^verbatim>\<open>retry\<close>, \<open>None\<close> when nothing declares it (reading it then throws a
  ReferenceError). The type \<open>'v\<close> is that of structured JavaScript values.
\<close>

record 'v builtins =
  JSON_parse :: "string \<Rightarrow> 'v option"
  JSON_stringify :: "'v \<Rightarrow> string"
  truthy :: "'v \<Rightarrow> bool"
  parseInt :: "string option \<Rightarrow> int option"
  retry :: "int option"

text \<open>
  \<^verbatim>\<open>getRequestOptions\<close> (lines 216 to 230). \<^verbatim>\<open>endpoint.substring(0,1)\<close> is
  \<open>take 1 endpoint\<close>; a \<^verbatim>\<open>data\<close> argument that was not passed is \<open>None\<close>.
\<close>

definition getRequestOptions ::
  "'v builtins \<Rightarrow> connection \<Rightarrow> string \<Rightarrow> string \<Rightarrow> 'v option \<Rightarrow> request_options" where
  "getRequestOptions env self meth endpoint data =
     \<lparr>url = (if take 1 endpoint \<noteq> ''/'' then host self @ ''/'' @ endpoint
             else host self @ endpoint),
      http_method = meth,
      headers = [(''Accept'', Some ''application/json''),
                 (''Content-Type'', Some ''application/json''),
                 (''X-Auth-Client'', cid (config self)),
                 (''X-Auth-Token'', token (config self))],
      body = (case data of
                None \<Rightarrow> None
              | Some d \<Rightarrow> if truthy env d then Some (JSON_stringify env d) else None)\<rparr>"

subsection \<open>The transport and the promise\<close>

text \<open>What the transport passes for \<^verbatim>\<open>res\<close>: the status code and the response headers.\<close>

record response =
  statusCode :: int
  response_headers :: "(string \<times> string) list"

text \<open>
  One completed exchange: the three arguments \<^verbatim>\<open>err\<close>, \<^verbatim>\<open>res\<close> and \<^verbatim>\<open>body\<close> with
  which the transport calls back. \<^verbatim>\<open>err\<close> is \<open>None\<close> for \<^verbatim>\<open>null\<close>.
\<close>

datatype reply = Callback "js_error option" response string

text \<open>The value passed to \<^verbatim>\<open>reject\<close>: the transport's error, or the raw body.\<close>

datatype reason = ErrValue js_error | BodyValue string

datatype exn = SyntaxError | ReferenceError

text \<open>
  How a logical call ends. An exception thrown inside the transport's callback is outside
  the promise's executor, so nothing catches it: the promise is neither fulfilled nor
  rejected (\<open>Uncaught\<close>). \<open>Pending\<close> is a promise whose transport has not called back.
\<close>

datatype 'v settlement = Fulfilled 'v | Rejected reason | Uncaught exn | Pending

text \<open>
  The observable behaviour of one logical call: how its promise ends, the requests handed
  to the transport in order, the delays passed to \<^verbatim>\<open>setTimeout\<close> in order, and the
  instance as the call leaves it.
\<close>

record 'v run =
  outcome :: "'v settlement"
  dispatched :: "request_options list"
  timers :: "int list"
  self_after :: connection

definition ends :: "request_options \<Rightarrow> connection \<Rightarrow> 'v settlement \<Rightarrow> 'v run" where
  "ends options self s = \<lparr>outcome = s, dispatched = [options], timers = [], self_after = self\<rparr>"

text \<open>
  \<^verbatim>\<open>setTimeout(function() { fulfill(self.get(endpoint)); }, ms)\<close>: the timer is set, and
  the promise then follows the promise of the inner call.
\<close>

definition after_timer :: "request_options \<Rightarrow> int \<Rightarrow> 'v run \<Rightarrow> 'v run" where
  "after_timer options ms r =
     r\<lparr>dispatched := options # dispatched r, timers := ms # timers r\<rparr>"

text \<open>
  The local \<^verbatim>\<open>timeout\<close> of the rate-limit branch:
  \<^verbatim>\<open>(parseInt(res.headers["X-Retry-After"]) + 2) * 1000\<close>, \<open>None\<close> for NaN.
\<close>

definition timeout_ms :: "'v builtins \<Rightarrow> response \<Rightarrow> int option" where
  "timeout_ms env res =
     map_option (\<lambda>n. (n + 2) * 1000)
       (parseInt env (map_of (response_headers res) ''X-Retry-After''))"

subsection \<open>The four operations\<close>

text \<open>
  Each operation takes the replies that the transport will give to the successive requests
  of this logical call; with none left the transport never calls back. The body of the
  callback is that of the source, branch by branch: first the test
  \<^verbatim>\<open>err || res.statusCode !== 200\<close>, then the test \<^verbatim>\<open>res.statusCode === 429\<close>, whose
  branch computes \<^verbatim>\<open>timeout\<close> and passes \<^verbatim>\<open>retry\<close> to \<^verbatim>\<open>setTimeout\<close>, then
  \<^verbatim>\<open>fulfill(JSON.parse(body))\<close>.
\<close>

fun get :: "'v builtins \<Rightarrow> connection \<Rightarrow> string \<Rightarrow> reply list \<Rightarrow> 'v run" where
  "get env self endpoint [] =
     ends (getRequestOptions env self ''GET'' endpoint None) self Pending"
| "get env self endpoint (Callback err res body' # script) =
     (let options = getRequestOptions env self ''GET'' endpoint None in
      if err \<noteq> None \<or> statusCode res \<noteq> 200 then
        (case err of
           Some e \<Rightarrow> ends options self (Rejected (ErrValue e))
         | None \<Rightarrow> ends options self (Rejected (BodyValue body')))
      else if statusCode res = 429 then
        (let timeout = timeout_ms env res in
         case retry env of
           None \<Rightarrow> ends options self (Uncaught ReferenceError)
         | Some ms \<Rightarrow> after_timer options ms (get env self endpoint script))
      else
        (case JSON_parse env body' of
           None \<Rightarrow> ends options self (Uncaught SyntaxError)
         | Some v \<Rightarrow> ends options self (Fulfilled v)))"

text \<open>The rate-limit branch of the other three also calls \<^verbatim>\<open>self.get(endpoint)\<close>.\<close>

fun put :: "'v builtins \<Rightarrow> connection \<Rightarrow> string \<Rightarrow> 'v option \<Rightarrow> reply list \<Rightarrow> 'v run" where
  "put env self endpoint data [] =
     ends (getRequestOptions env self ''PUT'' endpoint data) self Pending"
| "put env self endpoint data (Callback err res body' # script) =
     (let options = getRequestOptions env self ''PUT'' endpoint data in
      if err \<noteq> None \<or> statusCode res \<noteq> 200 then
        (case err of
           Some e \<Rightarrow> ends options self (Rejected (ErrValue e))
         | None \<Rightarrow> ends options self (Rejected (BodyValue body')))
      else if statusCode res = 429 then
        (let timeout = timeout_ms env res in
         case retry env of
           None \<Rightarrow> ends options self (Uncaught ReferenceError)
         | Some ms \<Rightarrow> after_timer options ms (get env self endpoint script))
      else
        (case JSON_parse env body' of
           None \<Rightarrow> ends options self (Uncaught SyntaxError)
         | Some v \<Rightarrow> ends options self (Fulfilled v)))"

fun post :: "'v builtins \<Rightarrow> connection \<Rightarrow> string \<Rightarrow> 'v option \<Rightarrow> reply list \<Rightarrow> 'v run" where
  "post env self endpoint data [] =
     ends (getRequestOptions env self ''POST'' endpoint data) self Pending"
| "post env self endpoint data (Callback err res body' # script) =
     (let options = getRequestOptions env self ''POST'' endpoint data in
      if err \<noteq> None \<or> statusCode res \<noteq> 200 then
        (case err of
           Some e \<Rightarrow> ends options self (Rejected (ErrValue e))
         | None \<Rightarrow> ends options self (Rejected (BodyValue body')))
      else if statusCode res = 429 then
        (let timeout = timeout_ms env res in
         case retry env of
           None \<Rightarrow> ends options self (Uncaught ReferenceError)
         | Some ms \<Rightarrow> after_timer options ms (get env self endpoint script))
      else
        (case JSON_parse env body' of
           None \<Rightarrow> ends options self (Uncaught SyntaxError)
         | Some v \<Rightarrow> ends options self (Fulfilled v)))"

fun delete :: "'v builtins \<Rightarrow> connection \<Rightarrow> string \<Rightarrow> reply list \<Rightarrow> 'v run" where
  "delete env self endpoint [] =
     ends (getRequestOptions env self ''DELETE'' endpoint None) self Pending"
| "delete env self endpoint (Callback err res body' # script) =
     (let options = getRequestOptions env self ''DELETE'' endpoint None in
      if err \<noteq> None \<or> statusCode res \<noteq> 200 then
        (case err of
           Some e \<Rightarrow> ends options self (Rejected (ErrValue e))
         | None \<Rightarrow> ends options self (Rejected (BodyValue body')))
      else if statusCode res = 429 then
        (let timeout = timeout_ms env res in
         case retry env of
           None \<Rightarrow> ends options self (Uncaught ReferenceError)
         | Some ms \<Rightarrow> after_timer options ms (get env self endpoint script))
      else
        (case JSON_parse env body' of
           None \<Rightarrow> ends options self (Uncaught SyntaxError)
         | Some v \<Rightarrow> ends options self (Fulfilled v)))"

subsection \<open>Callers\<close>

text \<open>A call of one of the four operations, as a caller writes it.\<close>

datatype 'v call =
  Get string
| Put string "'v option"
| Post string "'v option"
| Delete string

fun perform :: "'v builtins \<Rightarrow> connection \<Rightarrow> 'v call \<Rightarrow> reply list \<Rightarrow> 'v run" where
  "perform env self (Get endpoint) script = get env self endpoint script"
| "perform env self (Put endpoint data) script = put env self endpoint data script"
| "perform env self (Post endpoint data) script = post env self endpoint data script"
| "perform env self (Delete endpoint) script = delete env self endpoint script"

text \<open>
  A caller making calls one after the other on one instance, each with the replies its
  requests will get: the instance after the last of them.
\<close>

fun call_all :: "'v builtins \<Rightarrow> connection \<Rightarrow> ('v call \<times> reply list) list \<Rightarrow> connection" where
  "call_all env self [] = self"
| "call_all env self ((c, script) # rest) =
     call_all env (self_after (perform env self c script)) rest"

text \<open>
  The requests that are with the transport when the calls \<open>cs\<close> have been made and no
  reply has arrived yet.
\<close>

definition in_flight :: "'v builtins \<Rightarrow> connection \<Rightarrow> 'v call list \<Rightarrow> request_options list" where
  "in_flight env self cs = concat (map (\<lambda>c. dispatched (perform env self c [])) cs)"

text \<open>The request that a call hands to the transport when it is made.\<close>

fun request_of :: "'v builtins \<Rightarrow> connection \<Rightarrow> 'v call \<Rightarrow> request_options" where
  "request_of env self (Get endpoint) = getRequestOptions env self ''GET'' endpoint None"
| "request_of env self (Put endpoint data) = getRequestOptions env self ''PUT'' endpoint data"
| "request_of env self (Post endpoint data) = getRequestOptions env self ''POST'' endpoint data"
| "request_of env self (Delete endpoint) = getRequestOptions env self ''DELETE'' endpoint None"

subsection \<open>Values for the examples\<close>

text \<open>
  Structured values, and the built-ins at the texts and values that the examples below
  use. \<open>json_truthy\<close> is JavaScript's conversion to a boolean on these values. The tables
  for \<^verbatim>\<open>JSON.parse\<close>, \<^verbatim>\<open>JSON.stringify\<close> and \<^verbatim>\<open>parseInt\<close> hold their results at
  the listed arguments; of the other arguments the examples only use texts that are not
  JSON, and an absent header. Nothing declares \<^verbatim>\<open>retry\<close>.
\<close>

datatype json =
  JNull
| JBool bool
| JNum int
| JStr string
| JArr "json list"
| JObj "(string \<times> json) list"

fun json_truthy :: "json \<Rightarrow> bool" where
  "json_truthy JNull = False"
| "json_truthy (JBool b) = b"
| "json_truthy (JNum n) = (n \<noteq> 0)"
| "json_truthy (JStr s) = (s \<noteq> [])"
| "json_truthy (JArr xs) = True"
| "json_truthy (JObj kvs) = True"

definition parse_table :: "string \<Rightarrow> json option" where
  "parse_table s =
     (if s = ''[42]'' then Some (JArr [JNum 42])
      else if s = ''{}'' then Some (JObj [])
      else if s = ''true'' then Some (JBool True)
      else None)"

definition stringify_table :: "json \<Rightarrow> string" where
  "stringify_table v =
     (if v = JArr [JNum 10] then ''[10]''
      else if v = JObj [] then ''{}''
      else [])"

definition parseInt_table :: "string option \<Rightarrow> int option" where
  "parseInt_table s = (if s = Some ''1'' then Some 1 else None)"

definition node :: "json builtins" where
  "node = \<lparr>JSON_parse = parse_table, JSON_stringify = stringify_table,
           truthy = json_truthy, parseInt = parseInt_table, retry = None\<rparr>"

definition store_config :: config_obj where
  "store_config = \<lparr>hash = Some ''abc123'', token = Some ''secret'', cid = Some ''client'',
                   api = Some ''https://api.bigcommerce.com'', maxConcurrentRequests = Some 2\<rparr>"

definition store :: connection where
  "store = \<lparr>host = ''https://api.bigcommerce.com/stores/abc123/v2'', config = store_config\<rparr>"

definition answer :: "int \<Rightarrow> (string \<times> string) list \<Rightarrow> string \<Rightarrow> reply" where
  "answer status hs text = Callback None \<lparr>statusCode = status, response_headers = hs\<rparr> text"

section \<open>Construction\<close>

lemma Connection_new: "Connection FreshInstance cfg = initialise cfg"
  by (simp add: Connection.simps)

lemma Connection_plain: "Connection GlobalObject cfg = initialise cfg"
  by (simp add: Connection.simps)

lemma Connection_initialise: "Connection this cfg = initialise cfg"
  by (cases this) (simp_all add: Connection_new Connection_plain)

text \<open>
  C10. Calling \<^verbatim>\<open>Connection\<close> as a plain function gives what \<^verbatim>\<open>new Connection\<close>
  gives, for every argument. For a configuration with its four required fields, both give
  the initialised instance: \<^verbatim>\<open>host\<close> is the API base URL, then \<^verbatim>\<open>/stores/\<close>, then
  the store hash, then \<^verbatim>\<open>/v2\<close>, and \<^verbatim>\<open>config\<close> is the configuration as given. For no
  configuration, or one that lacks a required field, both throw the same error: that of
  the first check, in the order of the source, that fails.
\<close>

theorem plain_call_is_new:
  "Connection GlobalObject cfg = Connection FreshInstance cfg
   \<and> (hash c = Some h \<and> token c = Some t \<and> cid c = Some i \<and> api c = Some a \<longrightarrow>
        Connection GlobalObject (Some c)
          = Inr \<lparr>host = a @ ''/stores/'' @ h @ ''/v2'', config = c\<rparr>
        \<and> Connection FreshInstance (Some c)
          = Inr \<lparr>host = a @ ''/stores/'' @ h @ ''/v2'', config = c\<rparr>)
   \<and> Connection GlobalObject None
        = Inl (Error ''Error: Connection needs to be initialized with a config parameter'')
   \<and> Connection FreshInstance None
        = Inl (Error ''Error: Connection needs to be initialized with a config parameter'')
   \<and> (hash c = None \<longrightarrow>
        Connection GlobalObject (Some c)
          = Inl (Error ''Error: Connection needs store hash - config.hash.'')
        \<and> Connection FreshInstance (Some c)
          = Inl (Error ''Error: Connection needs store hash - config.hash.''))
   \<and> (hash c \<noteq> None \<and> token c = None \<longrightarrow>
        Connection GlobalObject (Some c)
          = Inl (Error ''Error: Connection needs store oAuth token - config.token.'')
        \<and> Connection FreshInstance (Some c)
          = Inl (Error ''Error: Connection needs store oAuth token - config.token.''))
   \<and> (hash c \<noteq> None \<and> token c \<noteq> None \<and> cid c = None \<longrightarrow>
        Connection GlobalObject (Some c)
          = Inl (Error ''Error: Connection needs app client id - config.cid.'')
        \<and> Connection FreshInstance (Some c)
          = Inl (Error ''Error: Connection needs app client id - config.cid.''))
   \<and> (hash c \<noteq> None \<and> token c \<noteq> None \<and> cid c \<noteq> None \<and> api c = None \<longrightarrow>
        Connection GlobalObject (Some c)
          = Inl (Error ''Error: Connection needs BigComerce API URL - config.api.'')
        \<and> Connection FreshInstance (Some c)
          = Inl (Error ''Error: Connection needs BigComerce API URL - config.api.''))"
proof (intro conjI impI)
  show "Connection GlobalObject cfg = Connection FreshInstance cfg"
    by (simp add: Connection_new Connection_plain)
next
  assume "hash c = Some h \<and> token c = Some t \<and> cid c = Some i \<and> api c = Some a"
  then have "initialise (Some c) = Inr \<lparr>host = a @ ''/stores/'' @ h @ ''/v2'', config = c\<rparr>"
    by (simp add: initialise_def)
  then show "Connection GlobalObject (Some c)
        = Inr \<lparr>host = a @ ''/stores/'' @ h @ ''/v2'', config = c\<rparr>"
    and "Connection FreshInstance (Some c)
        = Inr \<lparr>host = a @ ''/stores/'' @ h @ ''/v2'', config = c\<rparr>"
    by (simp_all add: Connection_new Connection_plain)
next
  show "Connection GlobalObject None
      = Inl (Error ''Error: Connection needs to be initialized with a config parameter'')"
    and "Connection FreshInstance None
      = Inl (Error ''Error: Connection needs to be initialized with a config parameter'')"
    by (simp_all add: Connection_new Connection_plain initialise_def)
next
  assume "hash c = None"
  then have "initialise (Some c)
      = Inl (Error ''Error: Connection needs store hash - config.hash.'')"
    by (simp add: initialise_def)
  then show "Connection GlobalObject (Some c)
        = Inl (Error ''Error: Connection needs store hash - config.hash.'')"
    and "Connection FreshInstance (Some c)
        = Inl (Error ''Error: Connection needs store hash - config.hash.'')"
    by (simp_all add: Connection_new Connection_plain)
next
  assume "hash c \<noteq> None \<and> token c = None"
  then have "initialise (Some c)
      = Inl (Error ''Error: Connection needs store oAuth token - config.token.'')"
    by (auto simp: initialise_def)
  then show "Connection GlobalObject (Some c)
        = Inl (Error ''Error: Connection needs store oAuth token - config.token.'')"
    and "Connection FreshInstance (Some c)
        = Inl (Error ''Error: Connection needs store oAuth token - config.token.'')"
    by (simp_all add: Connection_new Connection_plain)
next
  assume "hash c \<noteq> None \<and> token c \<noteq> None \<and> cid c = None"
  then have "initialise (Some c)
      = Inl (Error ''Error: Connection needs app client id - config.cid.'')"
    by (auto simp: initialise_def)
  then show "Connection GlobalObject (Some c)
        = Inl (Error ''Error: Connection needs app client id - config.cid.'')"
    and "Connection FreshInstance (Some c)
        = Inl (Error ''Error: Connection needs app client id - config.cid.'')"
    by (simp_all add: Connection_new Connection_plain)
next
  assume "hash c \<noteq> None \<and> token c \<noteq> None \<and> cid c \<noteq> None \<and> api c = None"
  then have "initialise (Some c)
      = Inl (Error ''Error: Connection needs BigComerce API URL - config.api.'')"
    by (auto simp: initialise_def)
  then show "Connection GlobalObject (Some c)
        = Inl (Error ''Error: Connection needs BigComerce API URL - config.api.'')"
    and "Connection FreshInstance (Some c)
        = Inl (Error ''Error: Connection needs BigComerce API URL - config.api.'')"
    by (simp_all add: Connection_new Connection_plain)
qed

theorem plain_call_is_new_witness:
  "Connection GlobalObject (Some store_config) = Inr store
   \<and> Connection FreshInstance (Some store_config) = Inr store
   \<and> Connection GlobalObject (Some (store_config\<lparr>token := None\<rparr>))
       = Inl (Error ''Error: Connection needs store oAuth token - config.token.'')
   \<and> Connection FreshInstance (Some (store_config\<lparr>token := None\<rparr>))
       = Inl (Error ''Error: Connection needs store oAuth token - config.token.'')
   \<and> Connection GlobalObject (Some (store_config\<lparr>api := None\<rparr>))
       = Inl (Error ''Error: Connection needs BigComerce API URL - config.api.'')
   \<and> Connection GlobalObject (None :: config_obj option)
       = Connection FreshInstance None"
proof -
  have valid: "hash store_config = Some ''abc123'' \<and> token store_config = Some ''secret''
      \<and> cid store_config = Some ''client''
      \<and> api store_config = Some ''https://api.bigcommerce.com''"
    by (simp add: store_config_def)
  have no_token: "hash (store_config\<lparr>token := None\<rparr>) \<noteq> None
      \<and> token (store_config\<lparr>token := None\<rparr>) = None"
    by (simp add: store_config_def)
  have no_api: "hash (store_config\<lparr>api := None\<rparr>) \<noteq> None
      \<and> token (store_config\<lparr>api := None\<rparr>) \<noteq> None
      \<and> cid (store_config\<lparr>api := None\<rparr>) \<noteq> None
      \<and> api (store_config\<lparr>api := None\<rparr>) = None"
    by (simp add: store_config_def)
  have built: "Connection GlobalObject (Some store_config)
        = Inr \<lparr>host = ''https://api.bigcommerce.com'' @ ''/stores/'' @ ''abc123'' @ ''/v2'',
               config = store_config\<rparr>
      \<and> Connection FreshInstance (Some store_config)
        = Inr \<lparr>host = ''https://api.bigcommerce.com'' @ ''/stores/'' @ ''abc123'' @ ''/v2'',
               config = store_config\<rparr>"
    using plain_call_is_new [where c = store_config and h = "''abc123''" and t = "''secret''"
        and i = "''client''" and a = "''https://api.bigcommerce.com''"] valid
    by blast
  have thrown: "Connection GlobalObject (Some (store_config\<lparr>token := None\<rparr>))
        = Inl (Error ''Error: Connection needs store oAuth token - config.token.'')
      \<and> Connection FreshInstance (Some (store_config\<lparr>token := None\<rparr>))
        = Inl (Error ''Error: Connection needs store oAuth token - config.token.'')"
    using plain_call_is_new [where c = "store_config\<lparr>token := None\<rparr>"] no_token
    by blast
  have thrown_api: "Connection GlobalObject (Some (store_config\<lparr>api := None\<rparr>))
        = Inl (Error ''Error: Connection needs BigComerce API URL - config.api.'')"
    using plain_call_is_new [where c = "store_config\<lparr>api := None\<rparr>"] no_api
    by blast
  have same: "Connection GlobalObject (None :: config_obj option)
      = Connection FreshInstance None"
    using plain_call_is_new [where cfg = "None :: config_obj option"]
    by blast
  from built have "Connection GlobalObject (Some store_config) = Inr store"
    and "Connection FreshInstance (Some store_config) = Inr store"
    by (simp_all add: store_def)
  with thrown thrown_api same show ?thesis
    by blast
qed

text \<open>
  C6. With the four required fields present and not empty, construction throws nothing and
  the stored \<^verbatim>\<open>host\<close> is the API base URL, then \<^verbatim>\<open>/stores/\<close>, then the store hash,
  then \<^verbatim>\<open>/v2\<close>; the instance keeps the configuration as given.
\<close>

theorem valid_config_constructs:
  assumes "hash c = Some h" and "token c = Some t" and "cid c = Some i" and "api c = Some a"
    and "h \<noteq> []" and "t \<noteq> []" and "i \<noteq> []" and "a \<noteq> []"
  shows "Connection this (Some c) = Inr \<lparr>host = a @ ''/stores/'' @ h @ ''/v2'', config = c\<rparr>"
  using assms by (simp add: Connection_initialise initialise_def)

theorem valid_config_constructs_witness:
  "Connection FreshInstance (Some store_config) = Inr store"
  using valid_config_constructs [of store_config "''abc123''" "''secret''" "''client''"
      "''https://api.bigcommerce.com''" FreshInstance]
  by (simp add: store_config_def store_def)

text \<open>
  C5, as the source has it. Construction throws exactly when the configuration object or
  one of its four required fields is absent; a field that is present is accepted whatever
  string it holds, the empty one too.
\<close>

theorem construction_fails_iff_absent:
  "isl (Connection this cfg) \<longleftrightarrow>
     (case cfg of
        None \<Rightarrow> True
      | Some c \<Rightarrow> hash c = None \<or> token c = None \<or> cid c = None \<or> api c = None)"
  by (auto simp: Connection_initialise initialise_def split: option.splits)

theorem construction_fails_iff_absent_witness:
  "isl (Connection FreshInstance (Some (store_config\<lparr>token := None\<rparr>)))
   \<and> isl (Connection GlobalObject (None :: config_obj option))
   \<and> \<not> isl (Connection FreshInstance (Some store_config))"
  using construction_fails_iff_absent [of FreshInstance "Some (store_config\<lparr>token := None\<rparr>)"]
    construction_fails_iff_absent [of GlobalObject None]
    construction_fails_iff_absent [of FreshInstance "Some store_config"]
  by (simp add: store_config_def)

text \<open>
  C5, as the specification states it, fails: a configuration whose store hash is the empty
  string constructs an instance.
\<close>

theorem empty_hash_constructs:
  "Connection FreshInstance (Some (store_config\<lparr>hash := Some []\<rparr>))
     = Inr \<lparr>host = ''https://api.bigcommerce.com/stores//v2'',
            config = store_config\<lparr>hash := Some []\<rparr>\<rparr>"
  by (simp add: Connection_initialise initialise_def store_config_def)

section \<open>Request URLs\<close>

lemma options_leading_slash:
  "take 1 p \<noteq> ''/'' \<Longrightarrow>
     getRequestOptions env self m (CHR ''/'' # p) d = getRequestOptions env self m p d"
  by (simp add: getRequestOptions_def)

lemma get_leading_slash:
  "take 1 p \<noteq> ''/'' \<Longrightarrow> get env self (CHR ''/'' # p) script = get env self p script"
proof (induction env self p script rule: get.induct)
  case (1 env self endpoint)
  then show ?case by (simp add: options_leading_slash)
next
  case (2 env self endpoint err res body' script)
  then show ?case
    by (simp add: options_leading_slash Let_def split: option.splits)
qed

lemma perform_leading_slash:
  assumes "take 1 p \<noteq> ''/''"
  shows "perform env self (Get (''/'' @ p)) script = perform env self (Get p) script"
    and "perform env self (Put (''/'' @ p) d) script = perform env self (Put p d) script"
    and "perform env self (Post (''/'' @ p) d) script = perform env self (Post p d) script"
    and "perform env self (Delete (''/'' @ p)) script = perform env self (Delete p) script"
proof -
  show "perform env self (Get (''/'' @ p)) script = perform env self (Get p) script"
    using assms by (simp add: get_leading_slash)
  show "perform env self (Put (''/'' @ p) d) script = perform env self (Put p d) script"
    using assms
    by (cases "(env, self, p, d, script)" rule: put.cases)
      (simp_all add: options_leading_slash get_leading_slash Let_def)
  show "perform env self (Post (''/'' @ p) d) script = perform env self (Post p d) script"
    using assms
    by (cases "(env, self, p, d, script)" rule: post.cases)
      (simp_all add: options_leading_slash get_leading_slash Let_def)
  show "perform env self (Delete (''/'' @ p)) script = perform env self (Delete p) script"
    using assms
    by (cases "(env, self, p, script)" rule: delete.cases)
      (simp_all add: options_leading_slash get_leading_slash Let_def)
qed

text \<open>
  C7. For a path \<open>p\<close> that does not begin with \<^verbatim>\<open>/\<close> and for every method, the
  request built for \<open>p\<close> is the request built for \<^verbatim>\<open>/\<close> followed by \<open>p\<close>, its URL is
  \<^verbatim>\<open>host\<close>, one \<^verbatim>\<open>/\<close> and \<open>p\<close>, and each of the four operations behaves the same on
  the two paths.
\<close>

theorem leading_slash_optional:
  assumes "take 1 p \<noteq> ''/''"
  shows "getRequestOptions env self m p d = getRequestOptions env self m (''/'' @ p) d
    \<and> url (getRequestOptions env self m p d) = host self @ ''/'' @ p
    \<and> perform env self (Get p) script = perform env self (Get (''/'' @ p)) script
    \<and> perform env self (Put p d) script = perform env self (Put (''/'' @ p) d) script
    \<and> perform env self (Post p d) script = perform env self (Post (''/'' @ p) d) script
    \<and> perform env self (Delete p) script = perform env self (Delete (''/'' @ p)) script"
proof (intro conjI)
  show "getRequestOptions env self m p d = getRequestOptions env self m (''/'' @ p) d"
    using assms by (simp add: options_leading_slash)
  show "url (getRequestOptions env self m p d) = host self @ ''/'' @ p"
    using assms by (simp add: getRequestOptions_def)
  show "perform env self (Get p) script = perform env self (Get (''/'' @ p)) script"
    by (rule perform_leading_slash(1) [OF assms, symmetric])
  show "perform env self (Put p d) script = perform env self (Put (''/'' @ p) d) script"
    by (rule perform_leading_slash(2) [OF assms, symmetric])
  show "perform env self (Post p d) script = perform env self (Post (''/'' @ p) d) script"
    by (rule perform_leading_slash(3) [OF assms, symmetric])
  show "perform env self (Delete p) script = perform env self (Delete (''/'' @ p)) script"
    by (rule perform_leading_slash(4) [OF assms, symmetric])
qed

theorem leading_slash_optional_witness:
  "take 1 ''products'' \<noteq> ''/''
   \<and> getRequestOptions node store ''GET'' ''products'' None
     = getRequestOptions node store ''GET'' ''/products'' None
   \<and> url (getRequestOptions node store ''GET'' ''products'' None)
     = ''https://api.bigcommerce.com/stores/abc123/v2/products''"
proof -
  have h: "take 1 ''products'' \<noteq> ''/''"
    by simp
  have same: "getRequestOptions node store ''GET'' ''products'' None
      = getRequestOptions node store ''GET'' (''/'' @ ''products'') None"
    by (rule leading_slash_optional [OF h, THEN conjunct1])
  have "url (getRequestOptions node store ''GET'' ''products'' None)
      = host store @ ''/'' @ ''products''"
    by (rule leading_slash_optional [OF h, THEN conjunct2, THEN conjunct1])
  then have "url (getRequestOptions node store ''GET'' ''products'' None)
      = ''https://api.bigcommerce.com/stores/abc123/v2/products''"
    by (simp add: store_def)
  with h same show ?thesis
    by simp
qed

section \<open>One exchange, classified\<close>

text \<open>
  What each operation does with the first reply, by the value of \<^verbatim>\<open>err\<close> and of the
  status code. The second test of the callback, \<^verbatim>\<open>res.statusCode === 429\<close>, is only
  reached with a status of 200.
\<close>

lemma perform_no_reply:
  "perform env self c [] = ends (request_of env self c) self Pending"
  by (cases c) simp_all

lemma perform_transport_error:
  "perform env self c (Callback (Some e) res b # script)
     = ends (request_of env self c) self (Rejected (ErrValue e))"
  by (cases c) (simp_all add: Let_def)

lemma perform_not_200:
  "statusCode res \<noteq> 200 \<Longrightarrow>
     perform env self c (Callback None res b # script)
       = ends (request_of env self c) self (Rejected (BodyValue b))"
  by (cases c) (simp_all add: Let_def)

lemma perform_200:
  "statusCode res = 200 \<Longrightarrow>
     perform env self c (Callback None res b # script)
       = ends (request_of env self c) self
           (case JSON_parse env b of None \<Rightarrow> Uncaught SyntaxError | Some v \<Rightarrow> Fulfilled v)"
  by (cases c) (simp_all add: Let_def split: option.splits)

lemma perform_ends:
  "\<exists>s. perform env self c script = ends (request_of env self c) self s"
proof (cases script)
  case Nil
  then show ?thesis by (auto simp: perform_no_reply)
next
  case (Cons r rest)
  obtain err res b where r: "r = Callback err res b"
    by (cases r)
  show ?thesis
  proof (cases err)
    case (Some e)
    with Cons r show ?thesis by (auto simp: perform_transport_error)
  next
    case None
    show ?thesis
    proof (cases "statusCode res = 200")
      case True
      with Cons r None show ?thesis by (auto simp: perform_200)
    next
      case False
      with Cons r None show ?thesis by (auto simp: perform_not_200)
    qed
  qed
qed

lemma never_retries:
  "dispatched (perform env self c script) = [request_of env self c]"
  "timers (perform env self c script) = []"
  "self_after (perform env self c script) = self"
  using perform_ends [of env self c script] by (auto simp: ends_def)

section \<open>Rate limiting\<close>

text \<open>
  C1, at \<^verbatim>\<open>post('/categories', {})\<close> with a transport that answers 429 and would
  answer 200 to a second request. The source rejects the promise with the body of the 429
  response and hands the transport one request only: the rate limit reaches the caller.
\<close>

theorem rate_limited_post_rejects:
  "outcome (post node store ''/categories'' (Some (JObj []))
      [answer 429 [(''X-Retry-After'', ''1'')] ''Too Many Requests'', answer 200 [] ''true''])
     = Rejected (BodyValue ''Too Many Requests'')
   \<and> length (dispatched (post node store ''/categories'' (Some (JObj []))
      [answer 429 [(''X-Retry-After'', ''1'')] ''Too Many Requests'', answer 200 [] ''true'']))
     = 1"
  by (simp add: answer_def ends_def Let_def)

text \<open>
  C2, at \<^verbatim>\<open>get('/products')\<close> with a 429 response whose \<^verbatim>\<open>X-Retry-After\<close> header is
  1. The delay of the source's formula would be 3000 ms, but no timer is set: the promise
  is rejected at once.
\<close>

theorem rate_limited_get_sets_no_timer:
  "timeout_ms node \<lparr>statusCode = 429, response_headers = [(''X-Retry-After'', ''1'')]\<rparr>
     = Some 3000
   \<and> timers (get node store ''/products''
      [answer 429 [(''X-Retry-After'', ''1'')] ''Too Many Requests'', answer 200 [] ''[42]''])
     = []
   \<and> outcome (get node store ''/products''
      [answer 429 [(''X-Retry-After'', ''1'')] ''Too Many Requests'', answer 200 [] ''[42]''])
     = Rejected (BodyValue ''Too Many Requests'')"
  by (simp add: answer_def ends_def Let_def timeout_ms_def node_def parseInt_table_def)

section \<open>Other statuses\<close>

text \<open>
  C3, as the source has it. For a response without transport error whose status is neither
  200 nor 429, each of the four operations rejects the promise with the raw response body,
  and with nothing else; it hands the transport one request and sets no timer.
\<close>

theorem other_status_rejects_with_body:
  assumes "statusCode res \<noteq> 200" and "statusCode res \<noteq> 429"
  shows "outcome (perform env self c (Callback None res b # script)) = Rejected (BodyValue b)
    \<and> dispatched (perform env self c (Callback None res b # script)) = [request_of env self c]
    \<and> timers (perform env self c (Callback None res b # script)) = []"
  using assms(1) by (simp add: perform_not_200 ends_def)

theorem other_status_rejects_with_body_witness:
  "outcome (put node store ''/products/1'' (Some (JArr [JNum 10]))
      [answer 500 [] ''Internal Error'', answer 200 [] ''true''])
     = Rejected (BodyValue ''Internal Error'')
   \<and> timers (put node store ''/products/1'' (Some (JArr [JNum 10]))
      [answer 500 [] ''Internal Error'', answer 200 [] ''true''])
     = []"
proof -
  have a: "statusCode \<lparr>statusCode = 500, response_headers = []\<rparr> \<noteq> 200"
    and b: "statusCode \<lparr>statusCode = 500, response_headers = []\<rparr> \<noteq> 429"
    by simp_all
  from other_status_rejects_with_body [OF a b,
      of node store "Put ''/products/1'' (Some (JArr [JNum 10]))" "''Internal Error''"
        "[answer 200 [] ''true'']"]
  show ?thesis
    by (simp add: answer_def)
qed

text \<open>
  C3, as the specification states it, fails: the rejection does not carry the status. A 500
  and a 404 with the same body reject with the same value, the body.
\<close>

theorem rejection_has_no_status:
  "outcome (put node store ''/products/1'' (Some (JArr [JNum 10]))
      [answer 500 [] ''Internal Error''])
     = Rejected (BodyValue ''Internal Error'')
   \<and> outcome (put node store ''/products/1'' (Some (JArr [JNum 10]))
      [answer 404 [] ''Internal Error''])
     = Rejected (BodyValue ''Internal Error'')"
  by (simp add: answer_def ends_def Let_def)

section \<open>Status 200\<close>

text \<open>
  C4, as the source has it. For a response with status 200 and no transport error, each of
  the four operations applies \<^verbatim>\<open>JSON.parse\<close> to the body: when that returns a value the
  promise is fulfilled with it; when it throws, the exception is thrown in the transport's
  callback, where nothing catches it, and the promise is neither fulfilled nor rejected.
\<close>

theorem status_200_parses_body:
  assumes "statusCode res = 200"
  shows "outcome (perform env self c (Callback None res b # script))
     = (case JSON_parse env b of
          Some v \<Rightarrow> Fulfilled v
        | None \<Rightarrow> Uncaught SyntaxError)"
  using assms by (simp add: perform_200 ends_def split: option.splits)

theorem status_200_parses_body_witness:
  "outcome (get node store ''/products/42'' [answer 200 [] ''[42]''])
     = Fulfilled (JArr [JNum 42])"
proof -
  have a: "statusCode \<lparr>statusCode = 200, response_headers = []\<rparr> = 200"
    by simp
  from status_200_parses_body [OF a, of node store "Get ''/products/42''" "''[42]''" "[]"]
  show ?thesis
    by (simp add: answer_def node_def parse_table_def)
qed

text \<open>
  C4, as the specification states it, fails: a body that is not JSON does not reject the
  promise.
\<close>

theorem malformed_body_uncaught:
  "outcome (get node store ''/products/42'' [answer 200 [] ''<html>Bad Gateway</html>''])
     = Uncaught SyntaxError"
  by (simp add: answer_def ends_def Let_def node_def parse_table_def)

section \<open>Concurrency ceiling\<close>

lemma in_flight_length: "length (in_flight env self cs) = length cs"
  by (induction cs) (simp_all add: in_flight_def never_retries(1))

text \<open>
  C8, at five \<^verbatim>\<open>get\<close> calls on an instance whose configuration sets
  \<^verbatim>\<open>maxConcurrentRequests\<close> to 2: all five requests are with the transport before any
  reply has arrived.
\<close>

theorem five_gets_all_in_flight:
  "maxConcurrentRequests (config store) = Some 2
   \<and> length (in_flight node store
        [Get ''/products'', Get ''/products'', Get ''/products'', Get ''/products'',
         Get ''/products''])
     = 5"
  by (simp add: store_def store_config_def in_flight_def ends_def)

section \<open>The instance is never changed\<close>

lemma call_all_keeps: "call_all env self cs = self"
  by (induction env self cs rule: call_all.induct) (simp_all add: never_retries(3))

text \<open>
  C9. Each of the four operations, on any endpoint, data and replies, leaves the instance
  as it found it, with its \<^verbatim>\<open>host\<close> and its \<^verbatim>\<open>config\<close>; so does any sequence of such
  calls.
\<close>

theorem operations_keep_instance:
  "self_after (get env self endpoint script) = self
   \<and> self_after (put env self endpoint data script) = self
   \<and> self_after (post env self endpoint data script) = self
   \<and> self_after (delete env self endpoint script) = self
   \<and> call_all env self cs = self"
  using never_retries(3) [of env self "Get endpoint" script]
    never_retries(3) [of env self "Put endpoint data" script]
    never_retries(3) [of env self "Post endpoint data" script]
    never_retries(3) [of env self "Delete endpoint" script]
  by (simp add: call_all_keeps)

end
